theory Spec2Isabelle
  imports Complex_Main "HOL-Library.List_Lexorder" "HOL-Library.Char_ord"
begin

section \<open>Strings, numbers and their rendering\<close>

text \<open>
  JavaScript strings are modelled as \<open>string\<close> (a list of characters). Numbers that
  the code only uses as integers (row ids, Unix timestamps, counts) are \<open>nat\<close> or
  \<open>int\<close>; a number that may be \<open>NaN\<close> is an \<open>option\<close> whose \<open>None\<close> is
  \<open>NaN\<close>. A template literal \<open>`${n}`\<close> of an integer prints its decimal digits.
\<close>

definition digit_char :: "nat \<Rightarrow> char" where
  "digit_char d = ''0123456789'' ! d"

function show_nat :: "nat \<Rightarrow> string" where
  "show_nat n = (if n < 10 then [digit_char n] else show_nat (n div 10) @ [digit_char (n mod 10)])"
  by pat_completeness auto
termination
  by (relation "measure (\<lambda>n. n)") auto

declare show_nat.simps [simp del]

definition show_int :: "int \<Rightarrow> string" where
  "show_int i = (if i < 0 then CHR ''-'' # show_nat (nat (- i)) else show_nat (nat i))"

section \<open>logic/image.ts: extractTimestampFromImageKey\<close>

text \<open>\<open>\d\<close> of a JavaScript regular expression without the unicode flag is \<open>[0-9]\<close>.\<close>

definition is_digit :: "char \<Rightarrow> bool" where
  "is_digit c = (c \<in> set ''0123456789'')"

definition is_alpha :: "char \<Rightarrow> bool" where
  "is_alpha c = (c \<in> set ''abcdefghijklmnopqrstuvwxyzABCDEFGHIJKLMNOPQRSTUVWXYZ'')"

text \<open>\<open>imageKey.split('/')\<close>: the pieces between the separators, never an empty array.\<close>

fun split_on :: "char \<Rightarrow> string \<Rightarrow> string list" where
  "split_on d [] = [[]]"
| "split_on d (c # cs) =
     (if c = d then [] # split_on d cs
      else (case split_on d cs of p # ps \<Rightarrow> (c # p) # ps | [] \<Rightarrow> [[c]]))"

text \<open>
  \<open>filename.match(/^(\d+)\.[a-zA-Z]+$/)\<close>: the result is the first capture group, or
  \<open>None\<close> when the pattern does not match. After the greedy run of digits the pattern
  needs a dot, which is no digit, so the run of digits is the only possible capture.
\<close>

definition match_timestamp :: "string \<Rightarrow> string option" where
  "match_timestamp filename =
     (let ds = takeWhile is_digit filename; rest = dropWhile is_digit filename
      in case rest of
           [] \<Rightarrow> None
         | c # ext \<Rightarrow>
             if ds \<noteq> [] \<and> c = CHR ''.'' \<and> ext \<noteq> [] \<and> list_all is_alpha ext
             then Some ds else None)"

text \<open>
  \<open>parseInt(s, 10)\<close> on a non-empty string of decimal digits: the integer that the
  digits encode. The result is a natural number here; the code's double is that integer
  as long as it is below \<open>2^53\<close>, which Unix timestamps are.
\<close>

definition digit_val :: "char \<Rightarrow> nat" where
  "digit_val c = of_char c - 48"

definition parseInt10 :: "string \<Rightarrow> nat" where
  "parseInt10 ds = foldl (\<lambda>a c. 10 * a + digit_val c) 0 ds"

definition extractTimestampFromImageKey :: "string \<Rightarrow> nat option" where
  "extractTimestampFromImageKey imageKey =
     (let parts = split_on CHR ''/'' imageKey;
          filename = last parts
      in case match_timestamp filename of
           Some g \<Rightarrow> if g \<noteq> [] then Some (parseInt10 g) else None
         | None \<Rightarrow> None)"




section \<open>logic/animations.ts: hasMinimumImages\<close>

text \<open>
  The table \<open>minimums\<close> is an object indexed by the type's name; a name that is not in
  the table gives \<open>undefined\<close>, and \<open>imageCount >= undefined\<close> is false.
\<close>

definition minimums :: "(string \<times> nat) list" where
  "minimums = [(''hourly'', 5), (''sunrise'', 3), (''sunset'', 3), (''full_day'', 10), (''on_demand'', 3)]"

definition hasMinimumImages :: "string \<Rightarrow> nat \<Rightarrow> bool" where
  "hasMinimumImages animationType imageCount =
     (case map_of minimums animationType of Some m \<Rightarrow> imageCount \<ge> m | None \<Rightarrow> False)"

section \<open>logic/animations.ts: generateAnimationStorageKey\<close>

text \<open>
  The optional parameter \<open>hourStr\<close> is an \<open>option\<close>; a template literal prints a
  missing argument as \<open>undefined\<close>.
\<close>

definition template_opt :: "string option \<Rightarrow> string" where
  "template_opt s = (case s of Some v \<Rightarrow> v | None \<Rightarrow> ''undefined'')"

definition generateAnimationStorageKey ::
  "string \<Rightarrow> string \<Rightarrow> string \<Rightarrow> string \<Rightarrow> string option \<Rightarrow> string" where
  "generateAnimationStorageKey nationalPark webcamName animationType dateStamp hourStr =
     (if animationType = ''hourly''
      then ''gifs/'' @ nationalPark @ ''/'' @ webcamName @ ''/'' @ animationType @ ''/''
             @ dateStamp @ ''_'' @ template_opt hourStr @ ''.mp4''
      else ''gifs/'' @ nationalPark @ ''/'' @ webcamName @ ''/'' @ animationType @ ''/''
             @ dateStamp @ ''.mp4'')"

section \<open>logic/animations.ts: desampleImageKeys\<close>

text \<open>
  An element of \<open>imagesWithTimestamps\<close> is a pair of the parsed timestamp and the key.
  Timestamps are natural numbers (the digits of a file name, below \<open>2^53\<close> so that
  the code's double-precision arithmetic is exact on them); the interval and the targets
  of the distribution loop are rationals. \<open>totalImages\<close> is any integer.
\<close>

definition parse_keys :: "string list \<Rightarrow> (nat \<times> string) list" where
  "parse_keys sourceImages =
     concat (map (\<lambda>imageKey. case extractTimestampFromImageKey imageKey of
                                Some timestamp \<Rightarrow> [(timestamp, imageKey)]
                              | None \<Rightarrow> []) sourceImages)"

text \<open>
  The inner scan \<open>for (const img of imagesWithTimestamps)\<close>: \<open>closestImage\<close> and
  \<open>minDifference\<close> start at element 0 and change only on a strictly smaller difference.
\<close>

fun closest_scan :: "rat \<Rightarrow> (nat \<times> string) \<Rightarrow> rat \<Rightarrow> (nat \<times> string) list \<Rightarrow> (nat \<times> string)" where
  "closest_scan targetTimestamp closestImage minDifference [] = closestImage"
| "closest_scan targetTimestamp closestImage minDifference (img # imgs) =
     (let difference = \<bar>of_nat (fst img) - targetTimestamp\<bar>
      in if difference < minDifference
         then closest_scan targetTimestamp img difference imgs
         else closest_scan targetTimestamp closestImage minDifference imgs)"

definition closest_image :: "rat \<Rightarrow> (nat \<times> string) list \<Rightarrow> (nat \<times> string)" where
  "closest_image targetTimestamp imagesWithTimestamps =
     closest_scan targetTimestamp (hd imagesWithTimestamps)
       \<bar>of_nat (fst (hd imagesWithTimestamps)) - targetTimestamp\<bar> imagesWithTimestamps"

text \<open>The loop \<open>for (let i = 1; i < totalImages - 1; i++)\<close>, entered with \<open>i = 1\<close>.\<close>

function select_loop ::
  "(nat \<times> string) list \<Rightarrow> rat \<Rightarrow> rat \<Rightarrow> int \<Rightarrow> int \<Rightarrow> string list \<Rightarrow> string list" where
  "select_loop imagesWithTimestamps firstTimestamp interval totalImages i selectedImages =
     (if i < totalImages - 1
      then let targetTimestamp = firstTimestamp + interval * of_int i;
               closestImage = closest_image targetTimestamp imagesWithTimestamps
           in select_loop imagesWithTimestamps firstTimestamp interval totalImages (i + 1)
                (if snd closestImage \<in> set selectedImages then selectedImages
                 else selectedImages @ [snd closestImage])
      else selectedImages)"
  by pat_completeness auto
termination
  by (relation "measure (\<lambda>(imgs, f, iv, n, i, sel). nat (n - 1 - i))") auto

declare select_loop.simps [simp del]

definition desampleImageKeys :: "string list \<Rightarrow> int \<Rightarrow> string list" where
  "desampleImageKeys sourceImages totalImages =
     (if length sourceImages = 0 \<or> totalImages \<le> 0 then []
      else if int (length sourceImages) \<le> totalImages then sourceImages
      else
        let parsed = parse_keys sourceImages in
        if length parsed = 0 then []
        else
          let imagesWithTimestamps = sort_key fst parsed in
          if int (length imagesWithTimestamps) \<le> totalImages then map snd imagesWithTimestamps
          else
            let firstTimestamp = fst (hd imagesWithTimestamps);
                lastTimestamp = fst (last imagesWithTimestamps);
                timeSpan = int lastTimestamp - int firstTimestamp
            in
            if timeSpan = 0 then map snd (take (nat totalImages) imagesWithTimestamps)
            else if totalImages = 1 then [snd (hd imagesWithTimestamps)]
            else if totalImages = 2
              then [snd (hd imagesWithTimestamps), snd (last imagesWithTimestamps)]
            else
              let interval = of_int timeSpan / of_int (totalImages - 1);
                  selectedImages =
                    select_loop imagesWithTimestamps (of_nat firstTimestamp) interval totalImages 1
                      [snd (hd imagesWithTimestamps)];
                  lastImage = snd (last imagesWithTimestamps)
              in if lastImage \<in> set selectedImages then selectedImages
                 else selectedImages @ [lastImage])"

text \<open>
  The words of the specification for the desampler: a key is parseable when its
  timestamp can be extracted, and the chronological order of keys is the order of their
  extracted timestamps.
\<close>

definition parseable :: "string \<Rightarrow> bool" where
  "parseable k = (extractTimestampFromImageKey k \<noteq> None)"

definition key_time :: "string \<Rightarrow> nat" where
  "key_time k = (case extractTimestampFromImageKey k of Some t \<Rightarrow> t | None \<Rightarrow> 0)"


definition parseable_sorted :: "string list \<Rightarrow> string list" where
  "parseable_sorted ks = sort_key key_time (filter parseable ks)"

text \<open>
  An element of \<open>imagesWithTimestamps\<close> built from a parseable key; a list of such
  elements that is not empty and is sorted by timestamp, as the list is after the sort;
  and a key whose element is the first of the list with its timestamp.
\<close>

definition stamp :: "string \<Rightarrow> nat \<times> string" where
  "stamp k = (key_time k, k)"



section \<open>db/schema.ts and the repositories\<close>

text \<open>
  Rows of the tables, with the columns that the modelled code reads or writes. A nullable
  column is an \<open>option\<close>. A column that holds an instant as an ISO-8601 string
  (\<open>scheduled_time\<close>, \<open>created_at\<close>, \<open>processed_at\<close>) holds here the instant itself, in
  milliseconds since the epoch; ISO strings of one format compare as their instants do.
\<close>

record WebcamDto =
  id_webcam :: nat
  name_webcam :: string
  enabled :: "bool option"
  nationalPark :: "string option"
  timezone :: "string option"
  latLon :: "string option"

record GifCreationQueue =
  id_queue :: nat
  webcamId :: nat
  referenceId :: string
  gifType :: string
  scheduledTime :: int
  imageList :: "string list"
  status :: "string option"
  createdAt :: "int option"
  processedAt :: "int option"
  errorMessage :: "string option"
  startTime :: "int option"
  endTime :: "int option"
  gifStorageKey :: "string option"
  dateKey :: "string option"

record Image =
  id_image :: nat
  webcamId_image :: nat
  timeStamp :: int
  objectName :: string
  retentionPolicy :: "string list option"

record AnimationQueueEntry =
  entry_id :: nat
  webcam_id :: nat
  reference_id :: string
  gif_type :: string
  scheduled_time :: int
  date_key :: string
  image_list :: "string list"
  entry_status :: string
  created_at :: int
  processed_at :: "int option"
  error_message :: "string option"
  start_time :: int
  end_time :: int
  gif_storage_key :: "string option"

text \<open>
  The database: the three tables and the counter of the queue's \<open>AUTOINCREMENT\<close>
  primary key. The table \<open>gif_creation_queue\<close> has a plain index on \<open>reference_id\<close> and
  no unique constraint, so an insert of a well-typed row always adds the row.
\<close>

record Repo =
  webcams :: "WebcamDto list"
  animationQueue :: "GifCreationQueue list"
  images :: "Image list"
  nextQueueId :: nat


definition getAllWebcams :: "Repo \<Rightarrow> WebcamDto list" where
  "getAllWebcams repo = sort_key name_webcam (webcams repo)"

definition getWebcamById :: "Repo \<Rightarrow> nat \<Rightarrow> WebcamDto option" where
  "getWebcamById repo wid = find (\<lambda>w. id_webcam w = wid) (webcams repo)"

definition getImagesForTimeRange :: "Repo \<Rightarrow> WebcamDto \<Rightarrow> rat \<Rightarrow> rat \<Rightarrow> Image list" where
  "getImagesForTimeRange repo webcam fromTime toTime =
     (let startTimeSeconds = \<lfloor>fromTime\<rfloor>; endTimeSeconds = \<lfloor>toTime\<rfloor>
      in sort_key timeStamp
           (filter (\<lambda>i. webcamId_image i = id_webcam webcam
                        \<and> startTimeSeconds \<le> timeStamp i \<and> timeStamp i \<le> endTimeSeconds)
              (images repo)))"

definition putImage :: "Repo \<Rightarrow> Image \<Rightarrow> Repo" where
  "putImage repo img =
     repo\<lparr>images := map (\<lambda>i. if id_image i = id_image img then img else i) (images repo)\<rparr>"

definition toInsert :: "nat \<Rightarrow> AnimationQueueEntry \<Rightarrow> GifCreationQueue" where
  "toInsert newId x =
     \<lparr>id_queue = newId, webcamId = webcam_id x, referenceId = reference_id x,
      gifType = gif_type x, scheduledTime = scheduled_time x, imageList = image_list x,
      status = Some (entry_status x), createdAt = Some (created_at x),
      processedAt = processed_at x, errorMessage = error_message x,
      startTime = Some (start_time x), endTime = Some (end_time x),
      gifStorageKey = gif_storage_key x, dateKey = Some (date_key x)\<rparr>"

definition insert_row :: "Repo \<Rightarrow> AnimationQueueEntry \<Rightarrow> Repo" where
  "insert_row repo x =
     repo\<lparr>animationQueue := animationQueue repo @ [toInsert (nextQueueId repo) x],
          nextQueueId := Suc (nextQueueId repo)\<rparr>"

definition addAnimationsToQueue :: "Repo \<Rightarrow> AnimationQueueEntry list \<Rightarrow> bool \<times> Repo" where
  "addAnimationsToQueue repo animations = (True, foldl insert_row repo animations)"

definition getWaitingAnimations :: "Repo \<Rightarrow> int \<Rightarrow> GifCreationQueue list" where
  "getWaitingAnimations repo currentTime =
     sort_key scheduledTime
       (filter (\<lambda>a. status a = Some ''waiting_for_images'' \<and> scheduledTime a \<le> currentTime)
          (animationQueue repo))"

text \<open>\<open>errorMessage || null\<close>: a missing or empty message is stored as null.\<close>

definition or_null :: "string option \<Rightarrow> string option" where
  "or_null m = (case m of Some s \<Rightarrow> if s = [] then None else Some s | None \<Rightarrow> None)"

text \<open>
  The \<open>.set({...})\<close> of \<open>updateAnimationWithImages\<close> on one row; \<open>wall\<close> is the
  instant that \<open>new Date()\<close> reads.
\<close>

definition row_update ::
  "int \<Rightarrow> string \<Rightarrow> string list \<Rightarrow> string option \<Rightarrow> GifCreationQueue \<Rightarrow> GifCreationQueue" where
  "row_update wall newStatus imageKeys msg a =
     a\<lparr>status := Some newStatus, imageList := imageKeys,
       processedAt := (if newStatus = ''completed'' \<or> newStatus = ''failed'' then Some wall else None),
       errorMessage := or_null msg\<rparr>"

definition updateAnimationWithImages ::
  "int \<Rightarrow> Repo \<Rightarrow> nat \<Rightarrow> string \<Rightarrow> string list \<Rightarrow> string option \<Rightarrow> Repo" where
  "updateAnimationWithImages wall repo aid newStatus imageKeys msg =
     repo\<lparr>animationQueue :=
       map (\<lambda>a. if id_queue a = aid then row_update wall newStatus imageKeys msg a else a)
         (animationQueue repo)\<rparr>"

record CompletionResult =
  success :: bool
  message :: string
  queue_entry_id :: "nat option"
  result_status :: "string option"

definition status_text :: "string option \<Rightarrow> string" where
  "status_text s = (case s of Some v \<Rightarrow> v | None \<Rightarrow> ''null'')"

definition markAnimationCompleted :: "int \<Rightarrow> Repo \<Rightarrow> nat \<Rightarrow> CompletionResult \<times> Repo" where
  "markAnimationCompleted wall repo aid =
     (case find (\<lambda>a. id_queue a = aid) (animationQueue repo) of
        None \<Rightarrow>
          (\<lparr>success = False,
            message = ''Animation queue entry with ID '' @ show_nat aid @ '' not found'',
            queue_entry_id = None, result_status = None\<rparr>, repo)
      | Some entry \<Rightarrow>
          if status entry \<noteq> Some ''pending''
          then (\<lparr>success = False,
                 message = ''Animation is not in pending status. Current status: ''
                            @ status_text (status entry),
                 queue_entry_id = None, result_status = None\<rparr>, repo)
          else (\<lparr>success = True, message = ''Animation marked as completed successfully'',
                 queue_entry_id = Some aid, result_status = Some ''completed''\<rparr>,
                repo\<lparr>animationQueue :=
                   map (\<lambda>a. if id_queue a = aid
                             then a\<lparr>status := Some ''completed'', processedAt := Some wall\<rparr>
                             else a)
                     (animationQueue repo)\<rparr>))"

section \<open>tasks/animationFinalization.ts: prepareAnimationsForPendingQueue\<close>

text \<open>\<open>!animation.startTime\<close>: a null or zero column is falsy.\<close>

definition falsy_time :: "int option \<Rightarrow> bool" where
  "falsy_time t = (case t of None \<Rightarrow> True | Some v \<Rightarrow> v = 0)"

text \<open>
  The \<open>switch\<close> on the type: only the \<open>full_day\<close> case ends in \<open>break\<close>. The
  \<open>hourly\<close> case assigns and then falls through the \<open>sunrise\<close> and \<open>sunset\<close> cases
  (an expression statement) into the default case, which assigns the number of keys.
\<close>

definition totalImages_for :: "string \<Rightarrow> nat \<Rightarrow> nat" where
  "totalImages_for gifT n =
     (if gifT = ''full_day'' then min (10 * 15) n
      else if gifT = ''hourly'' then (let fallen = min (4 * 15) n in n)
      else n)"

definition insufficient_message :: "nat \<Rightarrow> nat \<Rightarrow> string \<Rightarrow> string" where
  "insufficient_message selected raw gifT =
     ''Insufficient images: found '' @ show_nat selected @ '' after desampling from ''
       @ show_nat raw @ '', required minimum for '' @ gifT"

text \<open>
  The body of the inner \<open>try\<close>: \<open>Inl\<close> is the message of a thrown \<open>Error\<close>, \<open>Inr\<close>
  the database after the body ran to its end (or to its \<open>continue\<close>).
\<close>

definition advance_try :: "int \<Rightarrow> Repo \<Rightarrow> GifCreationQueue \<Rightarrow> string + Repo" where
  "advance_try wall repo animation =
     (case getWebcamById repo (webcamId animation) of
        None \<Rightarrow>
          Inr (updateAnimationWithImages wall repo (id_queue animation) ''failed'' []
                 (Some ''Webcam not found''))
      | Some webcam \<Rightarrow>
          if falsy_time (startTime animation) \<or> falsy_time (endTime animation)
          then Inl ''start or end time not defined''
          else
           (case (startTime animation, endTime animation) of
              (Some st, Some en) \<Rightarrow>
                let found = getImagesForTimeRange repo webcam (of_int st) (of_int en);
                    imageKeys = map objectName found;
                    totalImages = totalImages_for (gifType animation) (length imageKeys);
                    selectedImageKeys = desampleImageKeys imageKeys (int totalImages)
                in if hasMinimumImages (gifType animation) (length selectedImageKeys)
                   then Inr (updateAnimationWithImages wall repo (id_queue animation) ''pending''
                               selectedImageKeys None)
                   else Inr (updateAnimationWithImages wall repo (id_queue animation) ''failed'' []
                               (Some (insufficient_message (length selectedImageKeys)
                                        (length imageKeys) (gifType animation))))
            | _ \<Rightarrow> Inl ''start or end time not defined''))"

text \<open>One turn of the loop over the candidates: the \<open>try\<close> and its \<open>catch\<close>.\<close>

definition advance_one :: "int \<Rightarrow> Repo \<Rightarrow> GifCreationQueue \<Rightarrow> Repo" where
  "advance_one wall repo animation =
     (case advance_try wall repo animation of
        Inr repo' \<Rightarrow> repo'
      | Inl thrown \<Rightarrow>
          updateAnimationWithImages wall repo (id_queue animation) ''failed'' []
            (Some (''Processing error: '' @ thrown)))"

definition prepareAnimationsForPendingQueue :: "int \<Rightarrow> Repo \<Rightarrow> int \<Rightarrow> Repo" where
  "prepareAnimationsForPendingQueue wall repo now =
     (let animations = getWaitingAnimations repo now
      in if length animations = 0 then repo
         else foldl (advance_one wall) repo animations)"

section \<open>logic/solar-calculations.ts and the platform\<close>

text \<open>
  A solar event is a timestamp in milliseconds or \<open>NaN\<close> (\<open>None\<close>). Arithmetic on
  numbers propagates \<open>NaN\<close>.
\<close>

type_synonym num = "rat option"

record SolarTimes =
  sunrise :: num
  sunset :: num
  firstLight :: num
  lastLight :: num





text \<open>
  What the code takes from its libraries and from the host: the sun calculator behind
  \<open>calculateWebcamSolarTimes\<close> (the parsing of the location and the SunCalc library;
  \<open>None\<close> is its \<open>null\<close>), the date formatting of luxon and of \<open>toLocaleString\<close>, the
  instant of \<open>03:00:00\<close> on a date, and the wall clock.
\<close>

record platform =
  solarTimesAt :: "string \<Rightarrow> int \<Rightarrow> SolarTimes option"
  anchor_ms :: "string \<Rightarrow> int"
  format_yyyyMMdd :: "int \<Rightarrow> string \<Rightarrow> string"
  format_hour :: "int \<Rightarrow> string \<Rightarrow> string"
  getLocalDateKey :: "int \<Rightarrow> string \<Rightarrow> string"
  clock :: int


definition calculateWebcamSolarTimes :: "platform \<Rightarrow> string option \<Rightarrow> int \<Rightarrow> SolarTimes option" where
  "calculateWebcamSolarTimes p latLonString timestamp =
     (case latLonString of
        None \<Rightarrow> None
      | Some s \<Rightarrow> if s = [] then None else solarTimesAt p s timestamp)"

section \<open>tasks/animationCreation.ts: createAnimationEntry and createTodaysAnimations\<close>

definition or_default :: "string option \<Rightarrow> string \<Rightarrow> string" where
  "or_default s d = (case s of None \<Rightarrow> d | Some v \<Rightarrow> if v = [] then d else v)"

definition nullish_default :: "string option \<Rightarrow> string \<Rightarrow> string" where
  "nullish_default s d = (case s of None \<Rightarrow> d | Some v \<Rightarrow> v)"

text \<open>
  \<open>scheduledTime\<close> is the time value of a valid \<open>Date\<close>, \<open>startTime\<close> and \<open>endTime\<close>
  are seconds. The storage key is generated from \<open>scheduledTime.getTime()\<close>, a number,
  in the place of \<open>dateStamp\<close>, and without a fifth argument.
\<close>

definition createAnimationEntry ::
  "platform \<Rightarrow> WebcamDto \<Rightarrow> string \<Rightarrow> int \<Rightarrow> int \<Rightarrow> int \<Rightarrow> AnimationQueueEntry" where
  "createAnimationEntry p webcam animationType scheduledMs startSec endSec =
     (let zone = nullish_default (timezone webcam) '''';
          dateStr = format_yyyyMMdd p startSec zone;
          hourStr = format_hour p startSec zone;
          referenceId =
            (if animationType = ''hourly''
             then show_nat (id_webcam webcam) @ ''_'' @ animationType @ ''_'' @ dateStr @ ''_'' @ hourStr
             else show_nat (id_webcam webcam) @ ''_'' @ animationType @ ''_'' @ dateStr);
          storageKey =
            generateAnimationStorageKey (or_default (nationalPark webcam) ''unknown'')
              (name_webcam webcam) animationType (show_int scheduledMs) None;
          dateKey = getLocalDateKey p scheduledMs (or_default (timezone webcam) ''America/Denver'')
      in \<lparr>entry_id = 0, webcam_id = id_webcam webcam, reference_id = referenceId,
          gif_type = animationType, scheduled_time = scheduledMs, date_key = dateKey,
          image_list = [], entry_status = ''waiting_for_images'', created_at = clock p,
          processed_at = None, error_message = None, start_time = startSec,
          end_time = endSec, gif_storage_key = Some storageKey\<rparr>)"










text \<open>The loop that writes \<open>animationsToCreate\<close>, one call of the repository per animation.\<close>

definition persist_animations :: "Repo \<Rightarrow> AnimationQueueEntry list \<Rightarrow> Repo" where
  "persist_animations repo animationsToCreate =
     foldl (\<lambda>r animation. snd (addAnimationsToQueue r [animation])) repo animationsToCreate"



section \<open>logic/retention-policy.ts: SolarNoonRetentionPolicy and SunsetRetentionPolicy\<close>

text \<open>
  The two policies build their list of days as \<open>const days: Date[] = []\<close> and add
  nothing to it before the loop over the days. The body of that loop tags the image
  closest to the target instant and removes the tag from the other images of the window.
\<close>

definition has_tag :: "string \<Rightarrow> Image \<Rightarrow> bool" where
  "has_tag tag i = (case retentionPolicy i of None \<Rightarrow> False | Some tags \<Rightarrow> tag \<in> set tags)"

definition remove_tag :: "string \<Rightarrow> Image \<Rightarrow> Image" where
  "remove_tag tag i =
     i\<lparr>retentionPolicy :=
          Some (filter (\<lambda>x. x \<noteq> tag) (case retentionPolicy i of None \<Rightarrow> [] | Some tags \<Rightarrow> tags))\<rparr>"

definition add_tag :: "string \<Rightarrow> Image \<Rightarrow> Image" where
  "add_tag tag i =
     i\<lparr>retentionPolicy := Some ((case retentionPolicy i of None \<Rightarrow> [] | Some tags \<Rightarrow> tags) @ [tag])\<rparr>"

definition tag_closest :: "string \<Rightarrow> Repo \<Rightarrow> WebcamDto \<Rightarrow> rat \<Rightarrow> rat \<Rightarrow> rat \<Rightarrow> Repo" where
  "tag_closest tag repo webcam imageTime fromTime toTime =
     (let found = getImagesForTimeRange repo webcam fromTime toTime;
          ranked = sort_key (\<lambda>i. \<bar>of_int (timeStamp i) * 1000 - imageTime\<bar>) found
      in case ranked of
           [] \<Rightarrow> repo
         | chosen # _ \<Rightarrow>
             let others = filter (\<lambda>x. id_image x \<noteq> id_image chosen) ranked;
                 needsPolicyRemoved = filter (has_tag tag) others;
                 repo1 = foldl (\<lambda>r i. putImage r (remove_tag tag i)) repo needsPolicyRemoved
             in if has_tag tag chosen then repo1
                else putImage repo1 (add_tag tag chosen))"

definition solarNoon_day :: "platform \<Rightarrow> Repo \<Rightarrow> WebcamDto \<Rightarrow> int \<Rightarrow> Repo" where
  "solarNoon_day p repo webcam day =
     (case calculateWebcamSolarTimes p (latLon webcam) day of
        None \<Rightarrow> repo
      | Some solarTimes \<Rightarrow>
          (case (sunrise solarTimes, sunset solarTimes) of
             (Some sr, Some ss) \<Rightarrow>
               let imageTime = (sr + ss) / 2
               in tag_closest ''SolarNoon'' repo webcam imageTime
                    (imageTime - 15 * 60 * 1000) (15 * 60 * 1000 + imageTime)
           | _ \<Rightarrow> repo))"

definition sunset_day :: "platform \<Rightarrow> Repo \<Rightarrow> WebcamDto \<Rightarrow> int \<Rightarrow> Repo" where
  "sunset_day p repo webcam day =
     (case calculateWebcamSolarTimes p (latLon webcam) day of
        None \<Rightarrow> repo
      | Some solarTimes \<Rightarrow>
          (case (sunset solarTimes, lastLight solarTimes) of
             (Some ss, Some ll) \<Rightarrow>
               let imageTime = (ss + ll) / 2
               in tag_closest ''Sunset'' repo webcam imageTime
                    (imageTime - 15 * 60 * 1000) (5 * 60 * 1000 + imageTime)
           | _ \<Rightarrow> repo))"

definition policy_days :: "int \<Rightarrow> int \<Rightarrow> int list" where
  "policy_days start end = []"

definition SolarNoonRetentionPolicy :: "platform \<Rightarrow> Repo \<Rightarrow> int \<Rightarrow> int \<Rightarrow> Repo" where
  "SolarNoonRetentionPolicy p repo start end =
     foldl (\<lambda>r webcam. foldl (\<lambda>r' day. solarNoon_day p r' webcam day) r (policy_days start end))
       repo (getAllWebcams repo)"

definition SunsetRetentionPolicy :: "platform \<Rightarrow> Repo \<Rightarrow> int \<Rightarrow> int \<Rightarrow> Repo" where
  "SunsetRetentionPolicy p repo start end =
     foldl (\<lambda>r webcam. foldl (\<lambda>r' day. sunset_day p r' webcam day) r (policy_days start end))
       repo (getAllWebcams repo)"

text \<open>
  The words of the specification for the retention policies: the local calendar days that
  overlap the range, days being counted from the epoch in a zone with a fixed offset of
  \<open>offset\<close> seconds, and the number of image selections that one selection per such day
  and per webcam makes.
\<close>

definition day_index :: "int \<Rightarrow> int \<Rightarrow> int" where
  "day_index offset t = (t + offset) div 86400"

definition overlapped_days :: "int \<Rightarrow> int \<Rightarrow> int \<Rightarrow> int list" where
  "overlapped_days offset start end = [day_index offset start ..  day_index offset end]"

section \<open>An example database\<close>

text \<open>
  One webcam with three captured images, and four waiting queue entries: a sunrise job
  with enough images, a job of a webcam that does not exist, a job whose start time is
  zero, and an hourly job with too few images.
\<close>

definition example_webcam :: WebcamDto where
  "example_webcam =
     \<lparr>id_webcam = 1, name_webcam = ''cam'', enabled = Some True, nationalPark = Some ''romo'',
      timezone = Some ''America/Denver'', latLon = Some ''39.740,-104.975''\<rparr>"

definition example_row :: "nat \<Rightarrow> nat \<Rightarrow> string \<Rightarrow> string \<Rightarrow> int option \<Rightarrow> int option \<Rightarrow> GifCreationQueue" where
  "example_row i w ty st from until =
     \<lparr>id_queue = i, webcamId = w, referenceId = show_nat w @ ''_'' @ ty @ ''_20250924'',
      gifType = ty, scheduledTime = 1000, imageList = [], status = Some st,
      createdAt = Some 0, processedAt = None, errorMessage = None, startTime = from,
      endTime = until, gifStorageKey = None, dateKey = Some ''2025-09-24''\<rparr>"

definition example_image :: "nat \<Rightarrow> int \<Rightarrow> Image" where
  "example_image i t =
     \<lparr>id_image = i, webcamId_image = 1, timeStamp = t,
      objectName = ''images/romo/cam/'' @ show_int t @ ''.jpg'', retentionPolicy = None\<rparr>"

definition example_repo :: Repo where
  "example_repo =
     \<lparr>webcams = [example_webcam],
      animationQueue =
        [example_row 1 1 ''sunrise'' ''waiting_for_images'' (Some 100) (Some 200),
         example_row 2 9 ''sunset'' ''waiting_for_images'' (Some 100) (Some 200),
         example_row 3 1 ''hourly'' ''waiting_for_images'' (Some 0) (Some 200),
         example_row 4 1 ''hourly'' ''waiting_for_images'' (Some 100) (Some 200),
         example_row 5 1 ''full_day'' ''pending'' (Some 100) (Some 200)],
      images = [example_image 1 110, example_image 2 120, example_image 3 130],
      nextQueueId = 6\<rparr>"

text \<open>
  A platform for the date 2025-09-24 at the example webcam (zone America/Denver, six
  hours behind UTC on that day): first light 05:51, sunrise 06:49, sunset 18:53 and last
  light 19:51 local time.
\<close>

definition two_digits :: "nat \<Rightarrow> string" where
  "two_digits n = [digit_char (n div 10), digit_char (n mod 10)]"

definition example_solar :: SolarTimes where
  "example_solar =
     \<lparr>sunrise = Some 1758718140000, sunset = Some 1758761580000,
      firstLight = Some 1758714660000, lastLight = Some 1758765060000\<rparr>"

definition example_platform :: platform where
  "example_platform =
     \<lparr>solarTimesAt = (\<lambda>location t. Some example_solar),
      anchor_ms = (\<lambda>dateString. 1758682800000),
      format_yyyyMMdd = (\<lambda>seconds zone. ''20250924''),
      format_hour = (\<lambda>seconds zone. two_digits (nat ((seconds div 3600 - 6) mod 24))),
      getLocalDateKey = (\<lambda>ms zone. ''2025-09-24''),
      clock = 1758671820000\<rparr>"






definition created_with :: "int \<Rightarrow> AnimationQueueEntry \<Rightarrow> AnimationQueueEntry" where
  "created_with c x = x\<lparr>created_at := c\<rparr>"

section \<open>Properties\<close>

subsection \<open>extractTimestampFromImageKey\<close>














subsection \<open>The queue: lookups after an update\<close>

lemma find_map_update:
  assumes "\<And>x. P (f x) = P x"
  shows "find P (map (\<lambda>x. if P x then f x else x) xs) = map_option f (find P xs)"
  using assms by (induction xs) auto

lemma find_map_other:
  assumes "\<And>x. P x \<Longrightarrow> \<not> Q x" and "\<And>x. Q (f x) = Q x"
  shows "find Q (map (\<lambda>x. if P x then f x else x) xs) = find Q xs"
  using assms by (induction xs) auto

lemma find_distinct_key:
  "distinct (map f xs) \<Longrightarrow> a \<in> set xs \<Longrightarrow> find (\<lambda>x. f x = f a) xs = Some a"
  by (induction xs) (auto simp: image_iff)

lemma id_queue_row_update [simp]: "id_queue (row_update wall st ks m a) = id_queue a"
  by (simp add: row_update_def)

lemma find_updateAnimationWithImages_same:
  "find (\<lambda>x. id_queue x = aid) (animationQueue (updateAnimationWithImages wall r aid st ks m))
     = map_option (row_update wall st ks m) (find (\<lambda>x. id_queue x = aid) (animationQueue r))"
  by (simp add: updateAnimationWithImages_def
      find_map_update [where P = "\<lambda>x. id_queue x = aid" and f = "row_update wall st ks m"])

lemma find_updateAnimationWithImages_other:
  "i \<noteq> aid \<Longrightarrow>
   find (\<lambda>x. id_queue x = i) (animationQueue (updateAnimationWithImages wall r aid st ks m))
     = find (\<lambda>x. id_queue x = i) (animationQueue r)"
  by (simp add: updateAnimationWithImages_def
      find_map_other [where P = "\<lambda>x. id_queue x = aid" and Q = "\<lambda>x. id_queue x = i"
        and f = "row_update wall st ks m"])

lemma updateAnimationWithImages_tables [simp]:
  "webcams (updateAnimationWithImages wall r aid st ks m) = webcams r"
  "images (updateAnimationWithImages wall r aid st ks m) = images r"
  by (simp_all add: updateAnimationWithImages_def)

subsection \<open>markAnimationCompleted\<close>

text \<open>
  Claim C6. Marking a job complete: when no entry has the id, the result is a failure
  whose message says that the entry was not found, and nothing changes; when the entry's
  status is not \<open>pending\<close>, the result is a failure whose message names the entry's
  actual status, and nothing changes; otherwise the entry's status becomes \<open>completed\<close>
  with the processed timestamp set, and no other entry changes. The message of the first
  failure differs from the message of the second, whatever the status.
\<close>

theorem C6_markAnimationCompleted:
  "(find (\<lambda>a. id_queue a = aid) (animationQueue repo) = None \<longrightarrow>
      markAnimationCompleted wall repo aid =
        (\<lparr>success = False,
          message = ''Animation queue entry with ID '' @ show_nat aid @ '' not found'',
          queue_entry_id = None, result_status = None\<rparr>, repo))
   \<and> (\<forall>entry. find (\<lambda>a. id_queue a = aid) (animationQueue repo) = Some entry
          \<and> status entry \<noteq> Some ''pending'' \<longrightarrow>
        markAnimationCompleted wall repo aid =
          (\<lparr>success = False,
            message = ''Animation is not in pending status. Current status: ''
                       @ status_text (status entry),
            queue_entry_id = None, result_status = None\<rparr>, repo))
   \<and> (\<forall>entry. find (\<lambda>a. id_queue a = aid) (animationQueue repo) = Some entry
          \<and> status entry = Some ''pending'' \<longrightarrow>
        success (fst (markAnimationCompleted wall repo aid))
        \<and> find (\<lambda>a. id_queue a = aid) (animationQueue (snd (markAnimationCompleted wall repo aid)))
            = Some (entry\<lparr>status := Some ''completed'', processedAt := Some wall\<rparr>)
        \<and> (\<forall>other. other \<noteq> aid \<longrightarrow>
              find (\<lambda>a. id_queue a = other) (animationQueue (snd (markAnimationCompleted wall repo aid)))
              = find (\<lambda>a. id_queue a = other) (animationQueue repo)))
   \<and> (\<forall>s. ''Animation queue entry with ID '' @ show_nat aid @ '' not found''
            \<noteq> ''Animation is not in pending status. Current status: '' @ status_text s)"
proof (intro conjI allI impI)
  assume "find (\<lambda>a. id_queue a = aid) (animationQueue repo) = None"
  then show "markAnimationCompleted wall repo aid =
        (\<lparr>success = False,
          message = ''Animation queue entry with ID '' @ show_nat aid @ '' not found'',
          queue_entry_id = None, result_status = None\<rparr>, repo)"
    by (simp add: markAnimationCompleted_def)
next
  fix entry
  assume "find (\<lambda>a. id_queue a = aid) (animationQueue repo) = Some entry
          \<and> status entry \<noteq> Some ''pending''"
  then show "markAnimationCompleted wall repo aid =
          (\<lparr>success = False,
            message = ''Animation is not in pending status. Current status: ''
                       @ status_text (status entry),
            queue_entry_id = None, result_status = None\<rparr>, repo)"
    by (simp add: markAnimationCompleted_def)
next
  fix entry
  assume a: "find (\<lambda>a. id_queue a = aid) (animationQueue repo) = Some entry
          \<and> status entry = Some ''pending''"
  then have m: "markAnimationCompleted wall repo aid =
     (\<lparr>success = True, message = ''Animation marked as completed successfully'',
       queue_entry_id = Some aid, result_status = Some ''completed''\<rparr>,
      repo\<lparr>animationQueue :=
         map (\<lambda>a. if id_queue a = aid
                   then a\<lparr>status := Some ''completed'', processedAt := Some wall\<rparr>
                   else a)
           (animationQueue repo)\<rparr>)"
    by (simp add: markAnimationCompleted_def)
  show "success (fst (markAnimationCompleted wall repo aid))"
    by (simp add: m)
  show "find (\<lambda>a. id_queue a = aid) (animationQueue (snd (markAnimationCompleted wall repo aid)))
            = Some (entry\<lparr>status := Some ''completed'', processedAt := Some wall\<rparr>)"
    using a
    by (simp add: m find_map_update [where P = "\<lambda>a. id_queue a = aid"
          and f = "\<lambda>a. a\<lparr>status := Some ''completed'', processedAt := Some wall\<rparr>"])
  fix other
  assume "other \<noteq> aid"
  then show "find (\<lambda>a. id_queue a = other) (animationQueue (snd (markAnimationCompleted wall repo aid)))
              = find (\<lambda>a. id_queue a = other) (animationQueue repo)"
    by (simp add: m find_map_other [where P = "\<lambda>a. id_queue a = aid"
          and Q = "\<lambda>a. id_queue a = other"
          and f = "\<lambda>a. a\<lparr>status := Some ''completed'', processedAt := Some wall\<rparr>"])
next
  fix s
  show "''Animation queue entry with ID '' @ show_nat aid @ '' not found''
            \<noteq> ''Animation is not in pending status. Current status: '' @ status_text s"
    by simp
qed

theorem C6_witness:
  "find (\<lambda>a. id_queue a = 5) (animationQueue example_repo)
     = Some (example_row 5 1 ''full_day'' ''pending'' (Some 100) (Some 200))
   \<and> find (\<lambda>a. id_queue a = 5) (animationQueue (snd (markAnimationCompleted 5000 example_repo 5)))
     = Some ((example_row 5 1 ''full_day'' ''pending'' (Some 100) (Some 200))
               \<lparr>status := Some ''completed'', processedAt := Some 5000\<rparr>)
   \<and> find (\<lambda>a. id_queue a = 1) (animationQueue example_repo)
     = Some (example_row 1 1 ''sunrise'' ''waiting_for_images'' (Some 100) (Some 200))
   \<and> markAnimationCompleted 5000 example_repo 1 =
       (\<lparr>success = False,
         message = ''Animation is not in pending status. Current status: waiting_for_images'',
         queue_entry_id = None, result_status = None\<rparr>, example_repo)
   \<and> find (\<lambda>a. id_queue a = 7) (animationQueue example_repo) = None
   \<and> markAnimationCompleted 5000 example_repo 7 =
       (\<lparr>success = False, message = ''Animation queue entry with ID 7 not found'',
         queue_entry_id = None, result_status = None\<rparr>, example_repo)"
proof -
  have f5: "find (\<lambda>a. id_queue a = 5) (animationQueue example_repo)
     = Some (example_row 5 1 ''full_day'' ''pending'' (Some 100) (Some 200))"
    by (simp add: example_repo_def example_row_def)
  have s5: "status (example_row 5 1 ''full_day'' ''pending'' (Some 100) (Some 200)) = Some ''pending''"
    by (simp add: example_row_def)
  have f1: "find (\<lambda>a. id_queue a = 1) (animationQueue example_repo)
     = Some (example_row 1 1 ''sunrise'' ''waiting_for_images'' (Some 100) (Some 200))"
    by (simp add: example_repo_def example_row_def)
  have s1: "status (example_row 1 1 ''sunrise'' ''waiting_for_images'' (Some 100) (Some 200))
      = Some ''waiting_for_images''"
    by (simp add: example_row_def)
  have f7: "find (\<lambda>a. id_queue a = 7) (animationQueue example_repo) = None"
    by (simp add: example_repo_def example_row_def)
  have n7: "show_nat 7 = ''7''"
    by code_simp
  show ?thesis
    using C6_markAnimationCompleted [of 5 example_repo 5000]
      C6_markAnimationCompleted [of 1 example_repo 5000]
      C6_markAnimationCompleted [of 7 example_repo 5000]
      f5 s5 f1 s1 f7 n7
    by (simp add: status_text_def)
qed

subsection \<open>prepareAnimationsForPendingQueue: each candidate is handled on its own\<close>

lemma getWebcamById_cong: "webcams (r' :: Repo) = webcams (r :: Repo) \<Longrightarrow> getWebcamById r' = getWebcamById r"
  by (simp add: getWebcamById_def fun_eq_iff)

lemma getImagesForTimeRange_cong:
  "images (r' :: Repo) = images (r :: Repo) \<Longrightarrow> getImagesForTimeRange r' = getImagesForTimeRange r"
  by (simp add: getImagesForTimeRange_def fun_eq_iff)

text \<open>The outcome of one candidate is one update of its own row, chosen from the webcams and images alone.\<close>

lemma advance_one_as_update:
  "\<exists>st ks m. (st = ''pending'' \<or> st = ''failed'') \<and>
     (\<forall>r' :: Repo. webcams r' = webcams (r :: Repo) \<and> images r' = images r \<longrightarrow>
        advance_one wall r' a = updateAnimationWithImages wall r' (id_queue a) st ks m)"
proof -
  have g: "getWebcamById r' = getWebcamById r" if "webcams r' = webcams r" for r' :: Repo
    using that by (rule getWebcamById_cong)
  have i: "getImagesForTimeRange r' = getImagesForTimeRange r" if "images r' = images r" for r' :: Repo
    using that by (rule getImagesForTimeRange_cong)
  show ?thesis
  proof (cases "getWebcamById r (webcamId a)")
    case None
    have "advance_one wall r' a =
          updateAnimationWithImages wall r' (id_queue a) ''failed'' [] (Some ''Webcam not found'')"
      if "webcams r' = webcams r \<and> images r' = images r" for r' :: Repo
      using None g [of r'] that by (simp add: advance_one_def advance_try_def)
    then show ?thesis by blast
  next
    case (Some webcam)
    show ?thesis
    proof (cases "falsy_time (startTime a) \<or> falsy_time (endTime a)")
      case True
      have "advance_one wall r' a =
          updateAnimationWithImages wall r' (id_queue a) ''failed'' []
            (Some (''Processing error: '' @ ''start or end time not defined''))"
        if "webcams r' = webcams r \<and> images r' = images r" for r' :: Repo
        using Some True g [of r'] that by (simp add: advance_one_def advance_try_def)
      then show ?thesis by blast
    next
      case False
      then obtain st en where t: "startTime a = Some st" "endTime a = Some en"
        by (auto simp: falsy_time_def split: option.splits)
      define keys where "keys = map objectName (getImagesForTimeRange r webcam (of_int st) (of_int en))"
      define sel where "sel = desampleImageKeys keys (int (totalImages_for (gifType a) (length keys)))"
      show ?thesis
      proof (cases "hasMinimumImages (gifType a) (length sel)")
        case True
        have "advance_one wall r' a =
            updateAnimationWithImages wall r' (id_queue a) ''pending'' sel None"
          if "webcams r' = webcams r \<and> images r' = images r" for r' :: Repo
          using Some False t True g [of r'] i [of r'] that
          unfolding sel_def keys_def
          by (simp add: advance_one_def advance_try_def Let_def)
        then show ?thesis by blast
      next
        case nomin: False
        have "advance_one wall r' a = updateAnimationWithImages wall r' (id_queue a) ''failed'' []
             (Some (insufficient_message (length sel) (length keys) (gifType a)))"
          if "webcams r' = webcams r \<and> images r' = images r" for r' :: Repo
          using Some False t nomin g [of r'] i [of r'] that
          unfolding sel_def keys_def
          by (simp add: advance_one_def advance_try_def Let_def)
        then show ?thesis by blast
      qed
    qed
  qed
qed

lemma advance_one_tables:
  "webcams (advance_one wall r a) = webcams r \<and> images (advance_one wall r a) = images r"
  using advance_one_as_update [of r wall a] by auto

lemma advance_one_other:
  "i \<noteq> id_queue a \<Longrightarrow>
   find (\<lambda>x. id_queue x = i) (animationQueue (advance_one wall r a))
     = find (\<lambda>x. id_queue x = i) (animationQueue r)"
  using advance_one_as_update [of r wall a]
  by (auto simp: find_updateAnimationWithImages_other)

lemma advance_one_same:
  assumes "webcams (r' :: Repo) = webcams r" "images r' = images r"
    and "find (\<lambda>x. id_queue x = id_queue a) (animationQueue r')
       = find (\<lambda>x. id_queue x = id_queue a) (animationQueue r)"
  shows "find (\<lambda>x. id_queue x = id_queue a) (animationQueue (advance_one wall r' a))
       = find (\<lambda>x. id_queue x = id_queue a) (animationQueue (advance_one wall r a))"
proof -
  obtain st ks m where u: "\<forall>r' :: Repo. webcams r' = webcams r \<and> images r' = images r \<longrightarrow>
      advance_one wall r' a = updateAnimationWithImages wall r' (id_queue a) st ks m"
    using advance_one_as_update [of r wall a] by blast
  have "advance_one wall r' a = updateAnimationWithImages wall r' (id_queue a) st ks m"
    using u assms by blast
  moreover have "advance_one wall r a = updateAnimationWithImages wall r (id_queue a) st ks m"
    using u by blast
  ultimately show ?thesis
    using assms(3) by (simp add: find_updateAnimationWithImages_same)
qed

lemma batch_other:
  "i \<notin> id_queue ` set batch \<Longrightarrow>
   find (\<lambda>x. id_queue x = i) (animationQueue (foldl (advance_one wall) r batch))
     = find (\<lambda>x. id_queue x = i) (animationQueue r)"
  by (induction batch arbitrary: r) (auto simp: advance_one_other)

lemma batch_isolated:
  assumes "distinct (map id_queue batch)" "a \<in> set batch"
    and "webcams r = webcams r0" "images r = images r0"
    and "\<forall>b\<in>set batch. find (\<lambda>x. id_queue x = id_queue b) (animationQueue r)
                        = find (\<lambda>x. id_queue x = id_queue b) (animationQueue r0)"
  shows "find (\<lambda>x. id_queue x = id_queue a) (animationQueue (foldl (advance_one wall) r batch))
       = find (\<lambda>x. id_queue x = id_queue a) (animationQueue (advance_one wall r0 a))"
  using assms
proof (induction batch arbitrary: r)
  case Nil
  then show ?case by simp
next
  case (Cons b bs)
  show ?case
  proof (cases "a = b")
    case True
    then have "id_queue a \<notin> id_queue ` set bs"
      using Cons.prems(1) by auto
    then have "find (\<lambda>x. id_queue x = id_queue a) (animationQueue (foldl (advance_one wall) r (b # bs)))
        = find (\<lambda>x. id_queue x = id_queue a) (animationQueue (advance_one wall r a))"
      using True by (simp add: batch_other)
    also have "\<dots> = find (\<lambda>x. id_queue x = id_queue a) (animationQueue (advance_one wall r0 a))"
      using Cons.prems True by (intro advance_one_same) auto
    finally show ?thesis .
  next
    case False
    then have mem: "a \<in> set bs" using Cons.prems(2) by simp
    have d: "distinct (map id_queue bs)" using Cons.prems(1) by simp
    have t: "webcams (advance_one wall r b) = webcams r0" "images (advance_one wall r b) = images r0"
      using Cons.prems(3,4) advance_one_tables [of wall r b] by auto
    have rows: "\<forall>c\<in>set bs. find (\<lambda>x. id_queue x = id_queue c) (animationQueue (advance_one wall r b))
                        = find (\<lambda>x. id_queue x = id_queue c) (animationQueue r0)"
    proof
      fix c assume c: "c \<in> set bs"
      then have "id_queue c \<noteq> id_queue b" using Cons.prems(1) by (auto simp: image_iff)
      then have "find (\<lambda>x. id_queue x = id_queue c) (animationQueue (advance_one wall r b))
          = find (\<lambda>x. id_queue x = id_queue c) (animationQueue r)"
        by (rule advance_one_other)
      then show "find (\<lambda>x. id_queue x = id_queue c) (animationQueue (advance_one wall r b))
                        = find (\<lambda>x. id_queue x = id_queue c) (animationQueue r0)"
        using Cons.prems(5) c by simp
    qed
    show ?thesis
      using Cons.IH [OF d mem t rows] by simp
  qed
qed

lemma distinct_getWaitingAnimations:
  "distinct (map id_queue (animationQueue repo)) \<Longrightarrow>
   distinct (map id_queue (getWaitingAnimations repo now))"
  by (simp add: getWaitingAnimations_def distinct_map_filter distinct_map inj_on_def)

lemma prepare_row:
  assumes "distinct (map id_queue (animationQueue repo))"
    and "a \<in> set (getWaitingAnimations repo now)"
  shows "find (\<lambda>x. id_queue x = id_queue a)
           (animationQueue (prepareAnimationsForPendingQueue wall repo now))
       = find (\<lambda>x. id_queue x = id_queue a) (animationQueue (advance_one wall repo a))"
proof -
  have ne: "length (getWaitingAnimations repo now) \<noteq> 0" using assms(2) by auto
  have "find (\<lambda>x. id_queue x = id_queue a)
           (animationQueue (foldl (advance_one wall) repo (getWaitingAnimations repo now)))
       = find (\<lambda>x. id_queue x = id_queue a) (animationQueue (advance_one wall repo a))"
    by (rule batch_isolated [OF distinct_getWaitingAnimations [OF assms(1)] assms(2)]) auto
  then show ?thesis using ne by (simp add: prepareAnimationsForPendingQueue_def Let_def)
qed

lemma waiting_row_found:
  assumes "distinct (map id_queue (animationQueue repo))"
    and "a \<in> set (getWaitingAnimations repo now)"
  shows "find (\<lambda>x. id_queue x = id_queue a) (animationQueue repo) = Some a"
proof -
  have "a \<in> set (animationQueue repo)"
    using assms(2) by (simp add: getWaitingAnimations_def)
  then show ?thesis using assms(1) by (rule find_distinct_key [rotated])
qed

lemma hasMinimumImages_table:
  "hasMinimumImages ''hourly'' n \<longleftrightarrow> 5 \<le> n"
  "hasMinimumImages ''sunrise'' n \<longleftrightarrow> 3 \<le> n"
  "hasMinimumImages ''sunset'' n \<longleftrightarrow> 3 \<le> n"
  "hasMinimumImages ''full_day'' n \<longleftrightarrow> 10 \<le> n"
  "hasMinimumImages ''on_demand'' n \<longleftrightarrow> 3 \<le> n"
  by (simp_all add: hasMinimumImages_def minimums_def)

text \<open>
  Claim C4. The specification's states \<open>awaiting_images\<close> and \<open>ready\<close> are the
  statuses \<open>waiting_for_images\<close> and \<open>pending\<close> of the code. For a waiting entry whose
  webcam exists and whose start and end times are set: when the number of desampled
  keys meets the minimum of the entry's type (hourly 5, sunrise 3, sunset 3, full_day
  10, on_demand 3), the advancement leaves the entry \<open>pending\<close> with the desampled keys
  as its image list; otherwise it leaves the entry \<open>failed\<close> with a message that holds
  the desampled count and the raw count. For hourly, 4 images are too few and 5 are
  enough.
\<close>

theorem C4_ready_or_failed:
  assumes "distinct (map id_queue (animationQueue repo))"
    and "a \<in> set (getWaitingAnimations repo now)"
    and "getWebcamById repo (webcamId a) = Some webcam"
    and "startTime a = Some st" and "st \<noteq> 0" and "endTime a = Some en" and "en \<noteq> 0"
    and "keys = map objectName (getImagesForTimeRange repo webcam (of_int st) (of_int en))"
    and "sel = desampleImageKeys keys (int (totalImages_for (gifType a) (length keys)))"
  shows "(hasMinimumImages (gifType a) (length sel) \<longrightarrow>
            find (\<lambda>x. id_queue x = id_queue a)
              (animationQueue (prepareAnimationsForPendingQueue wall repo now))
            = Some (a\<lparr>status := Some ''pending'', imageList := sel, processedAt := None,
                      errorMessage := None\<rparr>))
       \<and> (\<not> hasMinimumImages (gifType a) (length sel) \<longrightarrow>
            find (\<lambda>x. id_queue x = id_queue a)
              (animationQueue (prepareAnimationsForPendingQueue wall repo now))
            = Some (a\<lparr>status := Some ''failed'', imageList := [], processedAt := Some wall,
                      errorMessage := Some (''Insufficient images: found '' @ show_nat (length sel)
                        @ '' after desampling from '' @ show_nat (length keys)
                        @ '', required minimum for '' @ gifType a)\<rparr>))
       \<and> (\<forall>n. (hasMinimumImages ''hourly'' n \<longleftrightarrow> 5 \<le> n)
              \<and> (hasMinimumImages ''sunrise'' n \<longleftrightarrow> 3 \<le> n)
              \<and> (hasMinimumImages ''sunset'' n \<longleftrightarrow> 3 \<le> n)
              \<and> (hasMinimumImages ''full_day'' n \<longleftrightarrow> 10 \<le> n)
              \<and> (hasMinimumImages ''on_demand'' n \<longleftrightarrow> 3 \<le> n))
       \<and> \<not> hasMinimumImages ''hourly'' 4 \<and> hasMinimumImages ''hourly'' 5"
proof -
  have row: "find (\<lambda>x. id_queue x = id_queue a) (animationQueue repo) = Some a"
    using assms(1,2) by (rule waiting_row_found)
  have batch: "find (\<lambda>x. id_queue x = id_queue a)
           (animationQueue (prepareAnimationsForPendingQueue wall repo now))
       = find (\<lambda>x. id_queue x = id_queue a) (animationQueue (advance_one wall repo a))"
    using assms(1,2) by (rule prepare_row)
  have times: "\<not> (falsy_time (startTime a) \<or> falsy_time (endTime a))"
    using assms(4-7) by (simp add: falsy_time_def)
  have ready: "find (\<lambda>x. id_queue x = id_queue a) (animationQueue (advance_one wall repo a))
      = Some (a\<lparr>status := Some ''pending'', imageList := sel, processedAt := None,
                errorMessage := None\<rparr>)"
    if "hasMinimumImages (gifType a) (length sel)"
  proof -
    have "advance_one wall repo a
        = updateAnimationWithImages wall repo (id_queue a) ''pending'' sel None"
      using that times assms(3,4,6) unfolding assms(8,9)
      by (simp add: advance_one_def advance_try_def Let_def)
    then show ?thesis
      using row by (simp add: find_updateAnimationWithImages_same row_update_def or_null_def)
  qed
  have failed: "find (\<lambda>x. id_queue x = id_queue a) (animationQueue (advance_one wall repo a))
      = Some (a\<lparr>status := Some ''failed'', imageList := [], processedAt := Some wall,
                errorMessage := Some (''Insufficient images: found '' @ show_nat (length sel)
                  @ '' after desampling from '' @ show_nat (length keys)
                  @ '', required minimum for '' @ gifType a)\<rparr>)"
    if "\<not> hasMinimumImages (gifType a) (length sel)"
  proof -
    have "advance_one wall repo a
        = updateAnimationWithImages wall repo (id_queue a) ''failed'' []
            (Some (insufficient_message (length sel) (length keys) (gifType a)))"
      using that times assms(3,4,6) unfolding assms(8,9)
      by (simp add: advance_one_def advance_try_def Let_def)
    then show ?thesis
      using row
      by (simp add: find_updateAnimationWithImages_same row_update_def or_null_def
          insufficient_message_def)
  qed
  show ?thesis
    using ready failed batch by (simp add: hasMinimumImages_table)
qed

text \<open>
  Claim C5. In a batch of candidates (the primary key makes their ids distinct), the row
  of every candidate ends as the advancement of that candidate alone leaves it, whatever
  happens to the other candidates, and it ends \<open>pending\<close> or \<open>failed\<close>. A candidate
  whose webcam is missing ends \<open>failed\<close> with the message \<open>Webcam not found\<close>; a
  candidate whose processing throws ends \<open>failed\<close> with the thrown message. Rows that
  are no candidates do not change.
\<close>

theorem C5_failure_isolation:
  assumes "distinct (map id_queue (animationQueue repo))"
    and "a \<in> set (getWaitingAnimations repo now)"
  shows "find (\<lambda>x. id_queue x = id_queue a)
           (animationQueue (prepareAnimationsForPendingQueue wall repo now))
         = find (\<lambda>x. id_queue x = id_queue a) (animationQueue (advance_one wall repo a))
       \<and> (getWebcamById repo (webcamId a) = None \<longrightarrow>
            find (\<lambda>x. id_queue x = id_queue a)
              (animationQueue (prepareAnimationsForPendingQueue wall repo now))
            = Some (a\<lparr>status := Some ''failed'', imageList := [], processedAt := Some wall,
                      errorMessage := Some ''Webcam not found''\<rparr>))
       \<and> (\<forall>thrown. advance_try wall repo a = Inl thrown \<longrightarrow>
            find (\<lambda>x. id_queue x = id_queue a)
              (animationQueue (prepareAnimationsForPendingQueue wall repo now))
            = Some (a\<lparr>status := Some ''failed'', imageList := [], processedAt := Some wall,
                      errorMessage := Some (''Processing error: '' @ thrown)\<rparr>))
       \<and> (\<exists>row. find (\<lambda>x. id_queue x = id_queue a)
                   (animationQueue (prepareAnimationsForPendingQueue wall repo now)) = Some row
                 \<and> (status row = Some ''pending'' \<or> status row = Some ''failed''))
       \<and> (\<forall>i. i \<notin> id_queue ` set (getWaitingAnimations repo now) \<longrightarrow>
            find (\<lambda>x. id_queue x = i)
              (animationQueue (prepareAnimationsForPendingQueue wall repo now))
            = find (\<lambda>x. id_queue x = i) (animationQueue repo))"
proof -
  have row: "find (\<lambda>x. id_queue x = id_queue a) (animationQueue repo) = Some a"
    using assms by (rule waiting_row_found)
  have batch: "find (\<lambda>x. id_queue x = id_queue a)
           (animationQueue (prepareAnimationsForPendingQueue wall repo now))
       = find (\<lambda>x. id_queue x = id_queue a) (animationQueue (advance_one wall repo a))"
    using assms by (rule prepare_row)
  have missing: "find (\<lambda>x. id_queue x = id_queue a) (animationQueue (advance_one wall repo a))
      = Some (a\<lparr>status := Some ''failed'', imageList := [], processedAt := Some wall,
                errorMessage := Some ''Webcam not found''\<rparr>)"
    if "getWebcamById repo (webcamId a) = None"
  proof -
    have "advance_one wall repo a
        = updateAnimationWithImages wall repo (id_queue a) ''failed'' [] (Some ''Webcam not found'')"
      using that by (simp add: advance_one_def advance_try_def)
    then show ?thesis
      using row by (simp add: find_updateAnimationWithImages_same row_update_def or_null_def)
  qed
  have thrown: "find (\<lambda>x. id_queue x = id_queue a) (animationQueue (advance_one wall repo a))
      = Some (a\<lparr>status := Some ''failed'', imageList := [], processedAt := Some wall,
                errorMessage := Some (''Processing error: '' @ thrown)\<rparr>)"
    if "advance_try wall repo a = Inl thrown" for thrown
  proof -
    have "advance_one wall repo a
        = updateAnimationWithImages wall repo (id_queue a) ''failed'' []
            (Some (''Processing error: '' @ thrown))"
      using that by (simp add: advance_one_def)
    then show ?thesis
      using row by (simp add: find_updateAnimationWithImages_same row_update_def or_null_def)
  qed
  have processed: "\<exists>row. find (\<lambda>x. id_queue x = id_queue a)
                   (animationQueue (advance_one wall repo a)) = Some row
                 \<and> (status row = Some ''pending'' \<or> status row = Some ''failed'')"
  proof -
    obtain st ks m where s: "st = ''pending'' \<or> st = ''failed''"
      and u: "\<forall>r' :: Repo. webcams r' = webcams repo \<and> images r' = images repo \<longrightarrow>
        advance_one wall r' a = updateAnimationWithImages wall r' (id_queue a) st ks m"
      using advance_one_as_update [of repo wall a] by blast
    then have "advance_one wall repo a = updateAnimationWithImages wall repo (id_queue a) st ks m"
      by blast
    then have f: "find (\<lambda>x. id_queue x = id_queue a) (animationQueue (advance_one wall repo a))
        = Some (row_update wall st ks m a)"
      using row by (simp add: find_updateAnimationWithImages_same)
    show ?thesis using f s by (auto simp: row_update_def)
  qed
  have untouched: "find (\<lambda>x. id_queue x = i)
              (animationQueue (prepareAnimationsForPendingQueue wall repo now))
            = find (\<lambda>x. id_queue x = i) (animationQueue repo)"
    if "i \<notin> id_queue ` set (getWaitingAnimations repo now)" for i
    using that by (simp add: prepareAnimationsForPendingQueue_def Let_def batch_other)
  show ?thesis
    using batch missing thrown processed untouched by simp
qed

lemma example_distinct: "distinct (map id_queue (animationQueue example_repo))"
  by (simp add: example_repo_def example_row_def)

lemma example_waiting:
  "getWaitingAnimations example_repo 2000 =
     [example_row 1 1 ''sunrise'' ''waiting_for_images'' (Some 100) (Some 200),
      example_row 2 9 ''sunset'' ''waiting_for_images'' (Some 100) (Some 200),
      example_row 3 1 ''hourly'' ''waiting_for_images'' (Some 0) (Some 200),
      example_row 4 1 ''hourly'' ''waiting_for_images'' (Some 100) (Some 200)]"
  by (simp add: getWaitingAnimations_def example_repo_def example_row_def)

lemma example_images:
  "map objectName (getImagesForTimeRange example_repo example_webcam (of_int 100) (of_int 200))
     = [''images/romo/cam/110.jpg'', ''images/romo/cam/120.jpg'', ''images/romo/cam/130.jpg'']"
  by code_simp

lemma example_desample:
  "desampleImageKeys [''images/romo/cam/110.jpg'', ''images/romo/cam/120.jpg'', ''images/romo/cam/130.jpg''] 3
     = [''images/romo/cam/110.jpg'', ''images/romo/cam/120.jpg'', ''images/romo/cam/130.jpg'']"
  by (simp add: desampleImageKeys_def)

theorem C4_witness:
  "find (\<lambda>x. id_queue x = 1)
     (animationQueue (prepareAnimationsForPendingQueue 5000 example_repo 2000))
   = Some ((example_row 1 1 ''sunrise'' ''waiting_for_images'' (Some 100) (Some 200))
        \<lparr>status := Some ''pending'',
         imageList := [''images/romo/cam/110.jpg'', ''images/romo/cam/120.jpg'', ''images/romo/cam/130.jpg''],
         processedAt := None, errorMessage := None\<rparr>)
   \<and> find (\<lambda>x. id_queue x = 4)
     (animationQueue (prepareAnimationsForPendingQueue 5000 example_repo 2000))
   = Some ((example_row 4 1 ''hourly'' ''waiting_for_images'' (Some 100) (Some 200))
        \<lparr>status := Some ''failed'', imageList := [], processedAt := Some 5000,
         errorMessage := Some ''Insufficient images: found 3 after desampling from 3, required minimum for hourly''\<rparr>)"
proof -
  let ?keys = "[''images/romo/cam/110.jpg'', ''images/romo/cam/120.jpg'', ''images/romo/cam/130.jpg'']"
  let ?a = "example_row 1 1 ''sunrise'' ''waiting_for_images'' (Some 100) (Some 200)"
  let ?b = "example_row 4 1 ''hourly'' ''waiting_for_images'' (Some 100) (Some 200)"
  have a: "?a \<in> set (getWaitingAnimations example_repo 2000)"
    and b: "?b \<in> set (getWaitingAnimations example_repo 2000)"
    by (simp_all add: example_waiting)
  have wa: "getWebcamById example_repo (webcamId ?a) = Some example_webcam"
    and wb: "getWebcamById example_repo (webcamId ?b) = Some example_webcam"
    by (simp_all add: getWebcamById_def example_repo_def example_row_def example_webcam_def)
  have ta: "startTime ?a = Some 100" "(100::int) \<noteq> 0" "endTime ?a = Some 200" "(200::int) \<noteq> 0"
    and tb: "startTime ?b = Some 100" "endTime ?b = Some 200"
    by (simp_all add: example_row_def)
  have ka: "?keys = map objectName (getImagesForTimeRange example_repo example_webcam (of_int 100) (of_int 200))"
    by (simp only: example_images)
  have sa: "?keys = desampleImageKeys ?keys (int (totalImages_for (gifType ?a) (length ?keys)))"
    and sb: "?keys = desampleImageKeys ?keys (int (totalImages_for (gifType ?b) (length ?keys)))"
    by (simp_all add: example_row_def totalImages_for_def desampleImageKeys_def)
  have n3: "show_nat 3 = ''3''" by code_simp
  have ga: "gifType ?a = ''sunrise''" and gb: "gifType ?b = ''hourly''"
    and ia: "id_queue ?a = 1" and ib: "id_queue ?b = 4"
    by (simp_all add: example_row_def)
  have ma: "hasMinimumImages ''sunrise'' (length ?keys)"
    and mb: "\<not> hasMinimumImages ''hourly'' (length ?keys)"
    by (simp_all add: hasMinimumImages_def minimums_def)
  have A: "find (\<lambda>x. id_queue x = 1)
     (animationQueue (prepareAnimationsForPendingQueue 5000 example_repo 2000))
   = Some (?a\<lparr>status := Some ''pending'', imageList := ?keys,
         processedAt := None, errorMessage := None\<rparr>)"
    using C4_ready_or_failed [OF example_distinct a wa ta ka sa, of 5000] ma
    unfolding ga ia by blast
  have B: "find (\<lambda>x. id_queue x = 4)
     (animationQueue (prepareAnimationsForPendingQueue 5000 example_repo 2000))
   = Some (?b\<lparr>status := Some ''failed'', imageList := [], processedAt := Some 5000,
         errorMessage := Some (''Insufficient images: found '' @ show_nat (length ?keys)
                        @ '' after desampling from '' @ show_nat (length ?keys)
                        @ '', required minimum for '' @ ''hourly'')\<rparr>)"
    using C4_ready_or_failed [OF example_distinct b wb tb(1) ta(2) tb(2) ta(4) ka sb, of 5000] mb
    unfolding gb ib by blast
  have l3: "show_nat (length ?keys) = ''3''" by code_simp
  have B': "find (\<lambda>x. id_queue x = 4)
     (animationQueue (prepareAnimationsForPendingQueue 5000 example_repo 2000))
   = Some (?b\<lparr>status := Some ''failed'', imageList := [], processedAt := Some 5000,
         errorMessage := Some ''Insufficient images: found 3 after desampling from 3, required minimum for hourly''\<rparr>)"
    using B unfolding l3 by simp
  show ?thesis
    by (rule conjI [OF A B'])
qed

theorem C5_witness:
  "find (\<lambda>x. id_queue x = 2)
     (animationQueue (prepareAnimationsForPendingQueue 5000 example_repo 2000))
   = Some ((example_row 2 9 ''sunset'' ''waiting_for_images'' (Some 100) (Some 200))
        \<lparr>status := Some ''failed'', imageList := [], processedAt := Some 5000,
         errorMessage := Some ''Webcam not found''\<rparr>)
   \<and> find (\<lambda>x. id_queue x = 3)
     (animationQueue (prepareAnimationsForPendingQueue 5000 example_repo 2000))
   = Some ((example_row 3 1 ''hourly'' ''waiting_for_images'' (Some 0) (Some 200))
        \<lparr>status := Some ''failed'', imageList := [], processedAt := Some 5000,
         errorMessage := Some ''Processing error: start or end time not defined''\<rparr>)
   \<and> find (\<lambda>x. id_queue x = 5)
     (animationQueue (prepareAnimationsForPendingQueue 5000 example_repo 2000))
   = Some (example_row 5 1 ''full_day'' ''pending'' (Some 100) (Some 200))"
proof -
  let ?a = "example_row 2 9 ''sunset'' ''waiting_for_images'' (Some 100) (Some 200)"
  let ?b = "example_row 3 1 ''hourly'' ''waiting_for_images'' (Some 0) (Some 200)"
  have a: "?a \<in> set (getWaitingAnimations example_repo 2000)"
    and b: "?b \<in> set (getWaitingAnimations example_repo 2000)"
    by (simp_all add: example_waiting)
  have wa: "getWebcamById example_repo (webcamId ?a) = None"
    by (simp add: getWebcamById_def example_repo_def example_row_def example_webcam_def)
  have tb: "advance_try 5000 example_repo ?b = Inl ''start or end time not defined''"
    by (simp add: advance_try_def getWebcamById_def example_repo_def example_row_def
        example_webcam_def falsy_time_def)
  have n5: "5 \<notin> id_queue ` set (getWaitingAnimations example_repo 2000)"
    by (simp add: example_waiting example_row_def)
  have f5: "find (\<lambda>x. id_queue x = 5) (animationQueue example_repo)
      = Some (example_row 5 1 ''full_day'' ''pending'' (Some 100) (Some 200))"
    by (simp add: example_repo_def example_row_def)
  have ia: "id_queue ?a = 2" and ib: "id_queue ?b = 3"
    by (simp_all add: example_row_def)
  have A: "find (\<lambda>x. id_queue x = 2)
     (animationQueue (prepareAnimationsForPendingQueue 5000 example_repo 2000))
   = Some (?a\<lparr>status := Some ''failed'', imageList := [], processedAt := Some 5000,
         errorMessage := Some ''Webcam not found''\<rparr>)"
    using C5_failure_isolation [OF example_distinct a, of 5000] wa unfolding ia by blast
  have B: "find (\<lambda>x. id_queue x = 3)
     (animationQueue (prepareAnimationsForPendingQueue 5000 example_repo 2000))
   = Some (?b\<lparr>status := Some ''failed'', imageList := [], processedAt := Some 5000,
         errorMessage := Some (''Processing error: '' @ ''start or end time not defined'')\<rparr>)"
    using C5_failure_isolation [OF example_distinct b, of 5000] tb unfolding ib by blast
  have C: "find (\<lambda>x. id_queue x = 5)
     (animationQueue (prepareAnimationsForPendingQueue 5000 example_repo 2000))
   = find (\<lambda>x. id_queue x = 5) (animationQueue example_repo)"
    using C5_failure_isolation [OF example_distinct a, of 5000] n5 by blast
  have B': "find (\<lambda>x. id_queue x = 3)
     (animationQueue (prepareAnimationsForPendingQueue 5000 example_repo 2000))
   = Some (?b\<lparr>status := Some ''failed'', imageList := [], processedAt := Some 5000,
         errorMessage := Some ''Processing error: start or end time not defined''\<rparr>)"
    using B by simp
  have C': "find (\<lambda>x. id_queue x = 5)
     (animationQueue (prepareAnimationsForPendingQueue 5000 example_repo 2000))
   = Some (example_row 5 1 ''full_day'' ''pending'' (Some 100) (Some 200))"
    using C f5 by (rule trans)
  show ?thesis
    by (intro conjI A B' C')
qed

subsection \<open>The example day, evaluated\<close>

lemma show_nat_numeral:
  "show_nat (numeral k) =
     (if (numeral k :: nat) < 10 then [digit_char (numeral k)]
      else show_nat (numeral k div 10) @ [digit_char (numeral k mod 10)])"
  by (rule show_nat.simps)
lemma show_nat_small: "show_nat 0 = ''0''" "show_nat 1 = ''1''" "show_nat (Suc 0) = ''1''"
  by (simp_all add: show_nat.simps digit_char_def)






subsection \<open>Persisting generated jobs\<close>


lemma insert_row_webcams [simp]: "webcams (insert_row repo x) = webcams repo"
  by (simp add: insert_row_def)

lemma persist_animations_Nil [simp]: "persist_animations repo [] = repo"
  by (simp add: persist_animations_def)

lemma persist_animations_Cons [simp]:
  "persist_animations repo (x # xs) = persist_animations (insert_row repo x) xs"
  by (simp add: persist_animations_def addAnimationsToQueue_def)


lemma persist_webcams [simp]: "webcams (persist_animations repo xs) = webcams repo"
  by (induction xs arbitrary: repo) auto




subsection \<open>The clock only sets the creation time\<close>




lemma calculateWebcamSolarTimes_clock [simp]:
  "calculateWebcamSolarTimes (p\<lparr>clock := c\<rparr>) l t = calculateWebcamSolarTimes p l t"
  by (simp add: calculateWebcamSolarTimes_def split: option.splits)



lemma reference_id_created_with [simp]: "reference_id (created_with c x) = reference_id x"
  by (simp add: created_with_def)

lemma reference_id_comp_created_with [simp]: "reference_id \<circ> created_with c = reference_id"
  by (simp add: fun_eq_iff)

lemma map_reference_id_created_with [simp]:
  "map reference_id (map (created_with c) xs) = map reference_id xs"
  by (induction xs) auto




subsection \<open>The sunrise job and the storage key of the Scheduler\<close>


text \<open>
  Claim C8, at a failing input. The storage key of the hourly job of 06:00 on 2025-09-24
  ends in the scheduled time in milliseconds and the text \<open>undefined\<close>, and the key of
  the sunrise job ends in the scheduled time in milliseconds; the reference key of the
  same hourly job does carry the date and the hour, and \<open>generateAnimationStorageKey\<close>
  gives the form of the claim when it is called with them.
\<close>

theorem C8_storage_key_failing_input:
  "gif_storage_key (createAnimationEntry example_platform example_webcam ''hourly''
      1758719100000 1758715200 1758718800)
     = Some ''gifs/romo/cam/hourly/1758719100000_undefined.mp4''
   \<and> gif_storage_key (createAnimationEntry example_platform example_webcam ''sunrise''
      1758719070000 1758713790 1758719010)
     = Some ''gifs/romo/cam/sunrise/1758719070000.mp4''
   \<and> reference_id (createAnimationEntry example_platform example_webcam ''hourly''
      1758719100000 1758715200 1758718800)
     = ''1_hourly_20250924_06''
   \<and> generateAnimationStorageKey ''romo'' ''cam'' ''hourly'' ''20250924'' (Some ''06'')
     = ''gifs/romo/cam/hourly/20250924_06.mp4''"
  by (simp add: createAnimationEntry_def generateAnimationStorageKey_def example_webcam_def
      example_platform_def or_default_def nullish_default_def template_opt_def show_int_def
      show_nat_numeral show_nat_small digit_char_def two_digits_def Let_def)

subsection \<open>The retention policies of solar noon and sunset\<close>

lemma foldl_unchanged: "foldl (\<lambda>r w. r) a ws = a"
  by (induction ws) auto

text \<open>
  Claim C9, at a failing input. The two policies return the database as it is, for
  every database and every range: their list of days is empty. The range from
  2025-09-24 06:00 UTC to 2025-09-26 12:00 UTC overlaps three local days at the example
  webcam, and no image of the example database carries a tag after either policy ran.
\<close>

theorem C9_policies_select_nothing:
  "SolarNoonRetentionPolicy p repo start end = repo
   \<and> SunsetRetentionPolicy p repo start end = repo
   \<and> policy_days 1758693600 1758888000 = []
   \<and> length (overlapped_days (- 21600) 1758693600 1758888000) = 3
   \<and> list_all (\<lambda>i. \<not> has_tag ''SolarNoon'' i)
        (images (SolarNoonRetentionPolicy example_platform example_repo 1758693600 1758888000))
   \<and> list_all (\<lambda>i. \<not> has_tag ''Sunset'' i)
        (images (SunsetRetentionPolicy example_platform example_repo 1758693600 1758888000))"
proof -
  have a: "SolarNoonRetentionPolicy p repo start end = repo" for p repo start "end"
    by (simp add: SolarNoonRetentionPolicy_def policy_days_def foldl_unchanged)
  have b: "SunsetRetentionPolicy p repo start end = repo" for p repo start "end"
    by (simp add: SunsetRetentionPolicy_def policy_days_def foldl_unchanged)
  have c: "length (overlapped_days (- 21600) 1758693600 1758888000) = 3"
    by (simp add: overlapped_days_def day_index_def)
  have d: "list_all (\<lambda>i. \<not> has_tag tag i) (images example_repo)" for tag
    by (simp add: example_repo_def example_image_def has_tag_def)
  show ?thesis
    using c d by (simp add: a b policy_days_def)
qed

subsection \<open>desampleImageKeys: the parsed and sorted images\<close>





lemma stamp_parts [simp]: "fst (stamp k) = key_time k" "snd (stamp k) = k"
  by (simp_all add: stamp_def)

lemma stamp_comp [simp]: "snd \<circ> stamp = (\<lambda>k. k)" "fst \<circ> stamp = key_time"
  by (simp_all add: fun_eq_iff)

lemma map_snd_stamp [simp]: "map snd (map stamp ks) = ks"
  by simp

lemma map_fst_stamp [simp]: "map fst (map stamp ks) = map key_time ks"
  by simp

lemma set_parseable_sorted: "set (parseable_sorted src) = {k \<in> set src. parseable k}"
  by (auto simp: parseable_sorted_def)




subsection \<open>The closest image\<close>










subsection \<open>The distribution loop\<close>








subsection \<open>desampleImageKeys, branch by branch\<close>






lemma in_parseable_sorted: "k \<in> set (parseable_sorted src) \<Longrightarrow> parseable k \<and> k \<in> set src"
  by (simp add: set_parseable_sorted)









subsection \<open>desampleImageKeys: the claims\<close>









end
